theory Spec2Isabelle
  imports Complex_Main "HOL-Library.Stream" "HOL-Library.Word"
begin

section \<open>Numbers, randomness and the clock\<close>

text \<open>
  The functions of \<^verbatim>\<open>src/utils/quantum.ts\<close> compute on JavaScript numbers. They are
  embedded over the real numbers: every finite number is a \<^typ>\<open>real\<close> and arithmetic
  is exact. The one operation of the source that leaves the finite numbers on finite
  input is the division \<^verbatim>\<open>ones / bits.length\<close> on an empty array (\<^verbatim>\<open>0 / 0\<close>); its
  result is the value \<open>NaN\<close> below.
\<close>

datatype jsnum = NaN | Num real

text \<open>\<^verbatim>\<open>a > b\<close> for a possibly non-numeric left operand: every comparison with NaN is false.\<close>

fun num_gt :: "jsnum \<Rightarrow> real \<Rightarrow> bool" where
  "num_gt NaN b = False"
| "num_gt (Num a) b = (a > b)"

text \<open>
  \<^verbatim>\<open>Math.random()\<close> and \<^verbatim>\<open>Date.now()\<close> read the outside world. The world is passed
  explicitly: each call takes the next element of a stream and returns the rest.
\<close>

record world =
  rand :: "real stream"
  clock :: "nat stream"

definition Math_random :: "world \<Rightarrow> real \<times> world" where
  "Math_random w = (shd (rand w), w\<lparr>rand := stl (rand w)\<rparr>)"

definition Date_now :: "world \<Rightarrow> nat \<times> world" where
  "Date_now w = (shd (clock w), w\<lparr>clock := stl (clock w)\<rparr>)"

text \<open>\<^verbatim>\<open>Math.random()\<close> returns a number in the half-open interval from 0 to 1.\<close>

definition valid_random :: "world \<Rightarrow> bool" where
  "valid_random w = (\<forall>r \<in> sset (rand w). 0 \<le> r \<and> r < 1)"

section \<open>The quantum-metric generator\<close>

text \<open>
  The types are those of \<^verbatim>\<open>types.ts\<close> (the declarations that follow the separator in
  \<^verbatim>\<open>src/README.md\<close>). \<^verbatim>\<open>QuantumState\<close> has five fields of type \<^verbatim>\<open>number\<close> and
  \<^verbatim>\<open>number[]\<close>: a bit is a number that the code compares with 1, the entropy field
  holds whatever \<^verbatim>\<open>calcEntropy\<close> returns, and \<^verbatim>\<open>samplesPerSecond\<close> is an integer
  (1048576 plus a floor).
\<close>

record QuantumState =
  entropy :: jsnum
  sValue :: real
  bits :: "nat list"
  deviationScore :: real
  samplesPerSecond :: int

text \<open>\<^verbatim>\<open>Array.from({ length: count }, () => (Math.random() > 0.5 ? 1 : 0))\<close>\<close>

fun generateQRNGBits :: "nat \<Rightarrow> world \<Rightarrow> nat list \<times> world" where
  "generateQRNGBits 0 w = ([], w)"
| "generateQRNGBits (Suc n) w =
     (let (r, w1) = Math_random w;
          (bs, w2) = generateQRNGBits n w1
      in ((if r > 0.5 then 1 else 0) # bs, w2))"

definition updateQRNGStream :: "nat list \<Rightarrow> world \<Rightarrow> nat list \<times> world" where
  "updateQRNGStream current w =
     (let (fresh, w1) = generateQRNGBits 4 w
      in (drop 4 current @ fresh, w1))"

text \<open>The value \<^verbatim>\<open>h\<close> of \<^verbatim>\<open>calcEntropy\<close> (line 17), as a function of \<^verbatim>\<open>p1\<close>.\<close>

definition shannon :: "real \<Rightarrow> real" where
  "shannon p1 = (let p0 = 1 - p1 in - (p1 * log 2 p1 + p0 * log 2 p0))"

text \<open>The value \<^verbatim>\<open>p1\<close> of \<^verbatim>\<open>calcEntropy\<close> (lines 13 and 14), for a non-empty array.\<close>

definition fractionOnes :: "nat list \<Rightarrow> real" where
  "fractionOnes bs = real (length (filter (\<lambda>b. b = 1) bs)) / real (length bs)"

text \<open>
  On the empty array \<^verbatim>\<open>p1\<close> is \<^verbatim>\<open>0 / 0\<close>, which is NaN: both comparisons of line 16 are
  false, \<^verbatim>\<open>h\<close> is NaN, one random number is drawn and \<^verbatim>\<open>Math.min(1, NaN)\<close> is NaN.
\<close>

definition calcEntropy :: "nat list \<Rightarrow> world \<Rightarrow> jsnum \<times> world" where
  "calcEntropy bs w =
     (if bs = [] then (let (r, w1) = Math_random w in (NaN, w1))
      else
        let p1 = fractionOnes bs in
        if p1 = 0 \<or> p1 = 1 then (Num 0, w)
        else
          let h = shannon p1;
              (r, w1) = Math_random w
          in (Num (min 1 (h + (r - 0.5) * 0.015)), w1))"

definition calcSValue :: "real \<Rightarrow> world \<Rightarrow> real \<times> world" where
  "calcSValue deviation w =
     (let (r1, w1) = Math_random w;
          base = 1.85 + r1 * 0.25
      in if deviation > 0.55
         then (let (r2, w2) = Math_random w1
               in (min 2.828 (base + deviation * 0.9 + r2 * 0.08), w2))
         else (base, w1))"

definition calcDeviationScore :: "real \<Rightarrow> real \<Rightarrow> real \<Rightarrow> world \<Rightarrow> real \<times> world" where
  "calcDeviationScore emf temperature motion w =
     (let emfNorm = min 1 (max 0 ((emf - 0.25) / 4.5));
          tempNorm = min 1 (max 0 ((21 - temperature) / 12.0));
          motNorm = min 1 (motion * 1.4);
          raw = emfNorm * 0.40 + tempNorm * 0.35 + motNorm * 0.25;
          (r, w1) = Math_random w
      in (min 1 (raw + (r - 0.5) * 0.04), w1))"

definition buildQuantumState :: "QuantumState \<Rightarrow> real \<Rightarrow> world \<Rightarrow> QuantumState \<times> world" where
  "buildQuantumState prev deviation w =
     (let (bs, w1) = updateQRNGStream (bits prev) w;
          (e, w2) = calcEntropy bs w1;
          (s, w3) = calcSValue deviation w2;
          (r, w4) = Math_random w3
      in (\<lparr>entropy = e, sValue = s, bits = bs, deviationScore = deviation,
            samplesPerSecond = 1048576 + \<lfloor>(r - 0.5) * 65536\<rfloor>\<rparr>, w4))"

definition INITIAL_QUANTUM :: "world \<Rightarrow> QuantumState \<times> world" where
  "INITIAL_QUANTUM w =
     (let (bs, w1) = generateQRNGBits 64 w
      in (\<lparr>entropy = Num 0.943, sValue = 1.97, bits = bs, deviationScore = 0.04,
            samplesPerSecond = 1048576\<rparr>, w1))"

section \<open>Strings and number formatting\<close>

text \<open>
  A JavaScript string is a sequence of UTF-16 code units. The descriptions contain code
  units beyond Latin-1, and \<^verbatim>\<open>charCodeAt\<close> reads code units, so a string is a list of
  natural numbers; \<open>ascii\<close> embeds an ASCII literal.
\<close>

type_synonym jsstring = "nat list"

definition ascii :: "string \<Rightarrow> jsstring" where
  "ascii s = map of_char s"

text \<open>The digit characters \<^verbatim>\<open>0\<close> to \<^verbatim>\<open>9\<close> and \<^verbatim>\<open>a\<close> to \<^verbatim>\<open>z\<close> of \<^verbatim>\<open>toString(radix)\<close>.\<close>

definition digitChar :: "nat \<Rightarrow> nat" where
  "digitChar d = (if d < 10 then 48 + d else 87 + d)"

text \<open>
  The digits of \<open>n\<close> in radix \<open>b\<close>, most significant first. Every call of the source has
  a radix of at least 2 (a smaller one is a RangeError in JavaScript); the function stops
  at once on a smaller radix, which makes it total.
\<close>

function radixDigits :: "nat \<Rightarrow> nat \<Rightarrow> nat list" where
  "radixDigits b n = (if b < 2 \<or> n < b then [n] else radixDigits b (n div b) @ [n mod b])"
  by pat_completeness auto
termination
  by (relation "measure snd") auto

declare radixDigits.simps [simp del]

text \<open>
  \<^verbatim>\<open>n.toString(radix)\<close> for a non-negative integer \<open>n\<close> below \<open>10\<^sup>2\<^sup>1\<close> and a radix from 2
  to 36 (the source uses 36 and 16, and 10 when a number is spliced into a string).
\<close>

definition toString :: "nat \<Rightarrow> nat \<Rightarrow> jsstring" where
  "toString n radix = map digitChar (radixDigits radix n)"

text \<open>\<^verbatim>\<open>toUpperCase\<close>, on the ASCII letters: the source applies it to digit strings only.\<close>

definition toUpperCase :: "jsstring \<Rightarrow> jsstring" where
  "toUpperCase s = map (\<lambda>c. if 97 \<le> c \<and> c \<le> 122 then c - 32 else c) s"

text \<open>\<^verbatim>\<open>s.slice(-k)\<close>: the last \<open>k\<close> code units, the whole string when it is shorter.\<close>

definition sliceFromEnd :: "nat \<Rightarrow> jsstring \<Rightarrow> jsstring" where
  "sliceFromEnd k s = drop (length s - k) s"

definition padStart :: "nat \<Rightarrow> nat \<Rightarrow> jsstring \<Rightarrow> jsstring" where
  "padStart n c s = replicate (n - length s) c @ s"

text \<open>
  \<^verbatim>\<open>x.toFixed(f)\<close> for a finite \<open>x\<close> of magnitude below \<open>10\<^sup>2\<^sup>1\<close>, after the steps of
  Number.prototype.toFixed: the sign is split off, \<open>n\<close> is the integer with \<open>n / 10\<^sup>f\<close>
  nearest to the magnitude (the larger one on a tie), its decimal digits are padded with
  zeros to at least \<open>f + 1\<close> digits and the point is put before the last \<open>f\<close> digits.
\<close>

definition toFixed :: "real \<Rightarrow> nat \<Rightarrow> jsstring" where
  "toFixed x f =
     (let s = (if x < 0 then [45] else []);
          n = nat \<lfloor>\<bar>x\<bar> * 10 ^ f + 1 / 2\<rfloor>;
          m = toString n 10;
          m = (if f \<noteq> 0
               then (let k = length m;
                         m = (if k \<le> f then replicate (f + 1 - k) 48 @ m else m);
                         k = length m
                     in take (k - f) m @ [46] @ drop (k - f) m)
               else m)
      in s @ m)"

text \<open>
  Unary plus on a string, for the strings the source applies it to: an optional minus
  sign, decimal digits, and optionally a point followed by decimal digits. Such a string
  denotes the number it spells. Every other string is mapped to NaN here (the numeric
  literals with exponents, radix prefixes or surrounding blanks, which JavaScript also
  accepts, are not produced by \<open>toFixed\<close> below \<open>10\<^sup>2\<^sup>1\<close>).
\<close>

definition isDigits :: "jsstring \<Rightarrow> bool" where
  "isDigits s = (s \<noteq> [] \<and> list_all (\<lambda>c. 48 \<le> c \<and> c \<le> 57) s)"

definition digitsValue :: "jsstring \<Rightarrow> nat" where
  "digitsValue s = foldl (\<lambda>a c. 10 * a + (c - 48)) 0 s"

definition toNumber :: "jsstring \<Rightarrow> jsnum" where
  "toNumber s =
     (let neg = (s \<noteq> [] \<and> hd s = 45);
          t = (if neg then tl s else s);
          ip = takeWhile (\<lambda>c. c \<noteq> 46) t;
          rest = dropWhile (\<lambda>c. c \<noteq> 46) t;
          sign = (if neg then - 1 else 1)
      in if isDigits ip \<and> rest = [] then Num (sign * real (digitsValue ip))
         else if isDigits ip \<and> rest \<noteq> [] \<and> isDigits (tl rest)
         then Num (sign * (real (digitsValue ip)
                            + real (digitsValue (tl rest)) / 10 ^ length (tl rest)))
         else NaN)"

text \<open>
  \<^verbatim>\<open>simpleHash\<close>: after \<^verbatim>\<open>h = h & h\<close> the accumulator is a 32-bit integer, and
  \<^verbatim>\<open>((h << 5) + h) + c\<close> converted back to 32 bits is the wrapping sum, so the loop runs
  on \<^typ>\<open>32 word\<close>; \<^verbatim>\<open>Math.abs\<close> takes the magnitude of the signed value.
\<close>

definition simpleHash :: "jsstring \<Rightarrow> jsstring" where
  "simpleHash s =
     (let h = foldl (\<lambda>h c. (push_bit 5 h + h) + word_of_nat c) (5381 :: 32 word) s
      in padStart 8 48 (toUpperCase (toString (nat \<bar>sint h\<bar>) 16)))"

section \<open>The anomaly detector\<close>

text \<open>\<^verbatim>\<open>AnomalyType\<close> and \<^verbatim>\<open>Severity\<close> of \<^verbatim>\<open>types.ts\<close>, with all their values.\<close>

datatype AnomalyType =
  emf_spike | temperature_drop | evp_pattern | quantum_deviation | bell_violation | motion_surge

datatype Severity = low | medium | high

text \<open>
  \<^verbatim>\<open>SensorReading\<close> and \<^verbatim>\<open>Anomaly\<close> of \<^verbatim>\<open>types.ts\<close>. The field \<^verbatim>\<open>readings\<close> of an
  anomaly is a \<^verbatim>\<open>Partial<SensorReading>\<close>: every field of a reading may be present or
  absent, so each is an option. The field \<^verbatim>\<open>hotspot\<close> is optional. Field names that
  several objects share carry a prefix: \<open>c_\<close> for a candidate (the local object type of
  \<^verbatim>\<open>detectAnomaly\<close>), \<open>a_\<close> for an anomaly, \<open>r_\<close> for the partial reading, \<open>h_\<close> for the
  hotspot.
\<close>

record SensorReading =
  emf :: real
  temperature :: real
  motion :: real
  pressure :: real
  audioLevel :: real
  timestamp :: nat

record Candidate =
  c_type :: AnomalyType
  c_severity :: Severity
  c_desc :: jsstring

record PartialSensorReading =
  r_emf :: "real option"
  r_temperature :: "real option"
  r_motion :: "real option"
  r_pressure :: "real option"
  r_audioLevel :: "real option"
  r_timestamp :: "nat option"

record Hotspot =
  h_x :: real
  h_y :: real

record Anomaly =
  a_id :: jsstring
  a_timestamp :: nat
  a_type :: AnomalyType
  a_severity :: Severity
  description :: jsstring
  readings :: PartialSensorReading
  a_entropy :: real
  hash :: jsstring
  hotspot :: "Hotspot option"

text \<open>Lines 98 to 131 of \<^verbatim>\<open>detectAnomaly\<close>: the candidates, in the order they are pushed.\<close>

definition candidates :: "SensorReading \<Rightarrow> SensorReading \<Rightarrow> world \<Rightarrow> Candidate list \<times> world" where
  "candidates current prev w =
     (let (c1, w1) =
            (if emf current > 2.8 \<and> emf prev < 1.0
             then (let mult = toFixed (emf current / 0.2) 1;
                       (r, w') = Math_random w;
                       dev = toFixed (r * 0.35 + 0.12) 2
                   in ([\<lparr>c_type = emf_spike,
                          c_severity = (if emf current > 6 then high else medium),
                          c_desc = ascii ''EMF spike: '' @ toFixed (emf current) 2 @ ascii '' ''
                            @ [181] @ ascii ''T ('' @ mult @ [215]
                            @ ascii '' baseline). Entropy deviation '' @ dev @ [963]
                            @ ascii '' below QRNG baseline '' @ [8212]
                            @ ascii '' structured non-randomness detected.''\<rparr>], w'))
             else ([], w));
          c2 =
            (if temperature current < temperature prev - 1.8
             then (let tdrop = toFixed (temperature prev - temperature current) 1
                   in c1 @ [\<lparr>c_type = temperature_drop,
                              c_severity = (if num_gt (toNumber tdrop) 3.5 then high else medium),
                              c_desc = ascii ''Rapid thermal drop: '' @ [8722] @ tdrop @ [176]
                                @ ascii ''C in <500ms. Thermodynamic analysis: inconsistent with HVAC cycling or occupant-induced convection.''\<rparr>])
             else c1);
          c3 =
            (if motion current > 0.55 \<and> motion prev < 0.08
             then c2 @ [\<lparr>c_type = motion_surge,
                         c_severity = (if motion current > 0.8 then high else medium),
                         c_desc = ascii ''Motion surge: '' @ toFixed (motion current * 100) 0
                           @ ascii ''% intensity threshold. No registered occupant displacement in sensor zone.''\<rparr>]
             else c2)
      in if audioLevel current > - 22 \<and> audioLevel prev < - 42
         then (let (r, w2) = Math_random w1;
                   conf = toFixed (r * 30 + 55) 0
               in (c3 @ [\<lparr>c_type = evp_pattern,
                          c_severity = (if audioLevel current > - 12 then high else medium),
                          c_desc = ascii ''EVP-class audio event: '' @ toFixed (audioLevel current) 1
                            @ ascii '' dBSPL. CNN pattern classifier: '' @ conf
                            @ ascii ''% confidence of non-ambient structured signal in 80'' @ [8211]
                            @ ascii ''3400 Hz band.''\<rparr>], w2))
         else (c3, w1))"

text \<open>
  \<^verbatim>\<open>detectAnomaly(current, prev)\<close>; an absent \<^verbatim>\<open>prev\<close> is \<open>None\<close>, the result \<^verbatim>\<open>null\<close>
  is \<open>None\<close>. The two calls of \<^verbatim>\<open>Date.now()\<close> and the three of \<^verbatim>\<open>Math.random()\<close> are
  made in the order of the source. The object literal of \<^verbatim>\<open>readings\<close> names emf,
  temperature, motion and audioLevel; the fields it does not name are absent.
\<close>

definition detectAnomaly :: "SensorReading \<Rightarrow> SensorReading option \<Rightarrow> world \<Rightarrow> Anomaly option \<times> world" where
  "detectAnomaly current prevo w =
     (case prevo of
        None \<Rightarrow> (None, w)
      | Some prev \<Rightarrow>
          (let (cs, w1) = candidates current prev w
           in case cs of
                [] \<Rightarrow> (None, w1)
              | pick # _ \<Rightarrow>
                  (let (t1, w2) = Date_now w1;
                       ident = [913] @ sliceFromEnd 5 (toUpperCase (toString t1 36));
                       (t2, w3) = Date_now w2;
                       (r1, w4) = Math_random w3;
                       (r2, w5) = Math_random w4;
                       (r3, w6) = Math_random w5
                   in (Some \<lparr>a_id = ident,
                             a_timestamp = t2,
                             a_type = c_type pick,
                             a_severity = c_severity pick,
                             description = c_desc pick,
                             readings = \<lparr>r_emf = Some (emf current),
                                         r_temperature = Some (temperature current),
                                         r_motion = Some (motion current),
                                         r_pressure = None,
                                         r_audioLevel = Some (audioLevel current),
                                         r_timestamp = None\<rparr>,
                             a_entropy = 0.65 + r1 * 0.3,
                             hash = simpleHash (ident @ c_desc pick @ toString (timestamp current) 10),
                             hotspot = Some \<lparr>h_x = 0.15 + r2 * 0.7, h_y = 0.15 + r3 * 0.7\<rparr>\<rparr>,
                      w6))))"

definition INITIAL_SENSORS :: "world \<Rightarrow> SensorReading \<times> world" where
  "INITIAL_SENSORS w =
     (let (t, w1) = Date_now w
      in (\<lparr>emf = 0.19, temperature = 21.4, motion = 0.01, pressure = 1013.2,
            audioLevel = - 53, timestamp = t\<rparr>, w1))"

section \<open>Example inputs\<close>

text \<open>Concrete worlds, states and readings at which the theorems below are instantiated.\<close>

definition example_world :: world where
  "example_world = \<lparr>rand = sconst (1 / 4), clock = sconst 1700000000000\<rparr>"

definition example_world_low :: world where
  "example_world_low = \<lparr>rand = sconst 0, clock = sconst 1700000000000\<rparr>"

definition example_world_mixed :: world where
  "example_world_mixed =
     \<lparr>rand = 9 / 10 ## 1 / 10 ## 7 / 10 ## 1 / 2 ## sconst (1 / 4),
      clock = sconst 1700000000000\<rparr>"

definition example_quantum :: QuantumState where
  "example_quantum = \<lparr>entropy = Num 0.943, sValue = 1.97, bits = replicate 32 1 @ replicate 32 0,
     deviationScore = 0.04, samplesPerSecond = 1048576\<rparr>"

definition example_prev :: SensorReading where
  "example_prev = \<lparr>emf = 0.5, temperature = 21, motion = 0.01, pressure = 1013.2,
     audioLevel = - 50, timestamp = 1700000000000\<rparr>"

definition example_cooler :: SensorReading where
  "example_cooler = \<lparr>emf = 0.5, temperature = 17.48, motion = 0.01, pressure = 1013.2,
     audioLevel = - 50, timestamp = 1700000000500\<rparr>"

definition example_cold :: SensorReading where
  "example_cold = \<lparr>emf = 0.5, temperature = 15, motion = 0.01, pressure = 1013.2,
     audioLevel = - 50, timestamp = 1700000000500\<rparr>"

definition example_spike :: SensorReading where
  "example_spike = \<lparr>emf = 3.0, temperature = 21, motion = 0.01, pressure = 1013.2,
     audioLevel = - 50, timestamp = 1700000000500\<rparr>"

section \<open>Digit strings and the value of a formatted number\<close>

lemma digitsValue_append: "digitsValue (s @ t) = digitsValue s * 10 ^ length t + digitsValue t"
proof (induction t rule: rev_induct)
  case Nil
  show ?case by (simp add: digitsValue_def)
next
  case (snoc c t)
  have "digitsValue (s @ t @ [c]) = 10 * digitsValue (s @ t) + (c - 48)"
    by (simp add: digitsValue_def)
  also have "\<dots> = digitsValue s * 10 ^ length (t @ [c]) + (10 * digitsValue t + (c - 48))"
    by (simp add: snoc.IH algebra_simps)
  also have "10 * digitsValue t + (c - 48) = digitsValue (t @ [c])"
    by (simp add: digitsValue_def)
  finally show ?case by simp
qed

lemma digitsValue_zeros: "digitsValue (replicate z 48) = 0"
proof (induction z)
  case 0
  show ?case by (simp add: digitsValue_def)
next
  case (Suc z)
  have "digitsValue (replicate (Suc z) 48) = digitsValue (replicate z 48 @ [48])"
    by (simp add: replicate_append_same)
  then show ?case using Suc by (simp add: digitsValue_append) (simp add: digitsValue_def)
qed

lemma radixDigits_nonempty: "radixDigits b n \<noteq> []"
  by (subst radixDigits.simps) simp

lemma radixDigits_lt: "2 \<le> b \<Longrightarrow> d \<in> set (radixDigits b n) \<Longrightarrow> d < b"
proof (induction b n rule: radixDigits.induct)
  case (1 b n)
  show ?case
  proof (cases "n < b")
    case True
    with "1.prems" show ?thesis by (subst (asm) radixDigits.simps) simp
  next
    case False
    with "1.prems" have "d \<in> set (radixDigits b (n div b)) \<or> d = n mod b"
      by (subst (asm) radixDigits.simps) auto
    with False "1.prems" "1.IH" show ?thesis by auto
  qed
qed

lemma toString10_isDigits: "isDigits (toString n 10)"
proof -
  have "\<forall>d \<in> set (radixDigits 10 n). d < 10"
    using radixDigits_lt [of 10 _ n] by simp
  then show ?thesis
    by (auto simp: isDigits_def toString_def list_all_iff digitChar_def radixDigits_nonempty)
qed

lemma toString10_value: "digitsValue (toString n 10) = n"
proof (induction n rule: less_induct)
  case (less n)
  show ?case
  proof (cases "n < 10")
    case True
    then have "radixDigits 10 n = [n]"
      by (subst radixDigits.simps) simp
    with True show ?thesis
      by (simp add: toString_def digitsValue_def digitChar_def)
  next
    case False
    then have "toString n 10 = toString (n div 10) 10 @ [digitChar (n mod 10)]"
      unfolding toString_def by (subst radixDigits.simps) simp
    moreover have "digitsValue (toString (n div 10) 10) = n div 10"
      using False by (intro less.IH) simp
    ultimately show ?thesis
      by (simp add: digitsValue_append digitsValue_def digitChar_def)
  qed
qed


lemma isDigits_hd: "isDigits a \<Longrightarrow> hd (a @ t) \<noteq> 45 \<and> a @ t \<noteq> []"
  by (cases a) (auto simp: isDigits_def)

lemma isDigits_takeWhile: "isDigits a \<Longrightarrow> takeWhile (\<lambda>c. c \<noteq> 46) (a @ 46 # b) = a"
  by (subst takeWhile_append2) (auto simp: isDigits_def list_all_iff)

lemma isDigits_dropWhile: "isDigits a \<Longrightarrow> dropWhile (\<lambda>c. c \<noteq> 46) (a @ 46 # b) = 46 # b"
  by (subst dropWhile_append2) (auto simp: isDigits_def list_all_iff)

lemma isDigits_no_point: "isDigits a \<Longrightarrow> 46 \<notin> set a"
  by (auto simp: isDigits_def list_all_iff)

lemma isDigits_takeWhile_all: "isDigits a \<Longrightarrow> takeWhile (\<lambda>c. c \<noteq> 46) a = a"
  by (rule takeWhile_eq_all_conv [THEN iffD2]) (auto simp: isDigits_def list_all_iff)

lemma isDigits_dropWhile_all: "isDigits a \<Longrightarrow> dropWhile (\<lambda>c. c \<noteq> 46) a = []"
  by (auto simp: isDigits_def list_all_iff)

lemma toNumber_point:
  assumes "isDigits a" "isDigits b" "s = [] \<or> s = [45]"
  shows "toNumber (s @ a @ 46 # b) =
    Num ((if s = [45] then - 1 else 1) * (real (digitsValue a) + real (digitsValue b) / 10 ^ length b))"
  using assms isDigits_hd [OF assms(1), of "46 # b"]
  by (auto simp: toNumber_def Let_def isDigits_takeWhile isDigits_dropWhile)

lemma toNumber_digits:
  assumes "isDigits a" "s = [] \<or> s = [45]"
  shows "toNumber (s @ a) = Num ((if s = [45] then - 1 else 1) * real (digitsValue a))"
  using assms isDigits_hd [OF assms(1), of "[]"] isDigits_no_point [OF assms(1)]
  by (auto simp: toNumber_def Let_def isDigits_takeWhile_all)

lemma isDigits_pad: "isDigits m \<Longrightarrow> isDigits (replicate z 48 @ m)"
  by (auto simp: isDigits_def list_all_iff)

lemma isDigits_take:
  assumes "isDigits m" "0 < j"
  shows "isDigits (take j m)"
proof -
  have "set (take j m) \<subseteq> set m"
    by (rule set_take_subset)
  moreover have "take j m \<noteq> []"
    using assms by (auto simp: isDigits_def)
  ultimately show ?thesis
    using assms by (auto simp: isDigits_def list_all_iff)
qed

lemma isDigits_drop: "isDigits m \<Longrightarrow> j < length m \<Longrightarrow> isDigits (drop j m)"
  by (auto simp: isDigits_def list_all_iff dest: in_set_dropD)

lemma toNumber_toFixed:
  "toNumber (toFixed x f) =
     Num ((if x < 0 then - 1 else 1) * (real (nat \<lfloor>\<bar>x\<bar> * 10 ^ f + 1 / 2\<rfloor>) / 10 ^ f))"
proof -
  define n where "n = nat \<lfloor>\<bar>x\<bar> * 10 ^ f + 1 / 2\<rfloor>"
  define s :: jsstring where "s = (if x < 0 then [45] else [])"
  define m where "m = toString n 10"
  define m' where "m' = (if length m \<le> f then replicate (f + 1 - length m) 48 @ m else m)"
  have s: "s = [] \<or> s = [45]" and sgn: "(s = [45]) = (x < 0)"
    by (simp_all add: s_def)
  have m: "isDigits m" "digitsValue m = n"
    by (simp_all add: m_def toString10_isDigits toString10_value)
  have "m \<noteq> []"
    using m(1) by (simp add: isDigits_def)
  then have m': "isDigits m'" "digitsValue m' = n" "f < length m'"
    using m by (auto simp: m'_def isDigits_pad digitsValue_append digitsValue_zeros)
  show ?thesis
  proof (cases "f = 0")
    case True
    then have "toFixed x f = s @ m"
      by (simp add: toFixed_def Let_def s_def m_def n_def)
    then show ?thesis
      using toNumber_digits [OF m(1) s] by (simp add: m sgn n_def True)
  next
    case False
    define a where "a = take (length m' - f) m'"
    define b where "b = drop (length m' - f) m'"
    have fixed: "toFixed x f = s @ a @ 46 # b"
      using False by (simp add: toFixed_def Let_def s_def m_def n_def m'_def a_def b_def)
    have a: "isDigits a" and b: "isDigits b" and lb: "length b = f"
      using m' False by (auto simp: a_def b_def intro: isDigits_take isDigits_drop)
    have "m' = a @ b"
      by (simp add: a_def b_def)
    then have "n = digitsValue a * 10 ^ f + digitsValue b"
      using m'(2) lb by (simp add: digitsValue_append)
    then have "real (digitsValue a) + real (digitsValue b) / 10 ^ f = real n / 10 ^ f"
      by (simp add: field_simps)
    then show ?thesis
      using toNumber_point [OF a b s] by (simp add: fixed sgn lb n_def)
  qed
qed

section \<open>Random draws and the ranges of the quantum metrics\<close>

lemma Math_random_range:
  assumes "valid_random w"
  shows "0 \<le> fst (Math_random w)" "fst (Math_random w) < 1" "valid_random (snd (Math_random w))"
proof -
  have "shd (rand w) \<in> sset (rand w)"
    by (rule shd_sset)
  with assms show "0 \<le> fst (Math_random w)" "fst (Math_random w) < 1"
    by (auto simp: valid_random_def Math_random_def)
  have "sset (stl (rand w)) \<subseteq> sset (rand w)"
    by (auto dest: stl_sset)
  with assms show "valid_random (snd (Math_random w))"
    by (auto simp: valid_random_def Math_random_def)
qed

lemma generateQRNGBits_length: "length (fst (generateQRNGBits n w)) = n"
  by (induction n arbitrary: w) (simp_all add: split_beta Let_def)

lemma generateQRNGBits_bits: "set (fst (generateQRNGBits n w)) \<subseteq> {0, 1}"
  by (induction n arbitrary: w) (auto simp: split_beta Let_def)

lemma generateQRNGBits_valid: "valid_random w \<Longrightarrow> valid_random (snd (generateQRNGBits n w))"
  by (induction n arbitrary: w) (simp_all add: split_beta Let_def Math_random_range)

lemma generateQRNGBits_draws:
  "generateQRNGBits n w =
     (map (\<lambda>r. if r > 0.5 then 1 else 0) (stake n (rand w)), w\<lparr>rand := sdrop n (rand w)\<rparr>)"
  by (induction n arbitrary: w) (simp_all add: split_beta Let_def Math_random_def)

lemma updateQRNGStream_valid: "valid_random w \<Longrightarrow> valid_random (snd (updateQRNGStream bs w))"
  by (simp add: updateQRNGStream_def split_beta generateQRNGBits_valid)

lemma updateQRNGStream_length:
  "length (fst (updateQRNGStream bs w)) = length bs - 4 + 4"
  by (simp add: updateQRNGStream_def split_beta generateQRNGBits_length)

lemma shannon_lower:
  assumes "0 < p" "p < 1"
  shows "min p (1 - p) \<le> shannon p"
proof (cases "p \<le> 1 / 2")
  case True
  have "log 2 p \<le> log 2 (1 / 2)"
    using assms True by simp
  also have "log 2 (1 / 2) = - 1"
    by (simp add: log_divide)
  finally have "p * log 2 p \<le> - p"
    using assms by (metis mult.commute mult_minus1_right mult_left_mono less_imp_le mult.right_neutral mult_minus_right)
  moreover have "log 2 (1 - p) \<le> 0"
    using assms by simp
  then have "(1 - p) * log 2 (1 - p) \<le> 0"
    using assms by (simp add: mult_nonneg_nonpos)
  ultimately show ?thesis
    by (simp add: shannon_def Let_def)
next
  case False
  have "log 2 (1 - p) \<le> log 2 (1 / 2)"
    using assms False by simp
  also have "log 2 (1 / 2) = - 1"
    by (simp add: log_divide)
  finally have "(1 - p) * log 2 (1 - p) \<le> (1 - p) * (- 1)"
    using assms by (intro mult_left_mono) simp_all
  moreover have "log 2 p \<le> 0"
    using assms by simp
  then have "p * log 2 p \<le> 0"
    using assms by (simp add: mult_nonneg_nonpos)
  ultimately show ?thesis
    by (simp add: shannon_def Let_def)
qed

lemma fractionOnes_range:
  assumes "bs \<noteq> []" "fractionOnes bs \<noteq> 0" "fractionOnes bs \<noteq> 1"
  shows "1 / real (length bs) \<le> fractionOnes bs" "fractionOnes bs \<le> 1 - 1 / real (length bs)"
proof -
  define k where "k = length (filter (\<lambda>b. b = 1) bs)"
  define n where "n = length bs"
  have n: "0 < n" and kn: "k \<le> n"
    using assms(1) by (simp_all add: k_def n_def)
  have p: "fractionOnes bs = real k / real n"
    by (simp add: fractionOnes_def k_def n_def)
  from assms(2) p have "k \<noteq> 0"
    by auto
  moreover from assms(3) p n have "k \<noteq> n"
    by auto
  ultimately have "1 \<le> k" "k + 1 \<le> n"
    using kn by simp_all
  then have "1 \<le> real k" "real k + 1 \<le> real n"
    by (simp_all flip: of_nat_Suc)
  with n show "1 / real (length bs) \<le> fractionOnes bs"
    "fractionOnes bs \<le> 1 - 1 / real (length bs)"
    unfolding p n_def [symmetric] by (simp_all add: field_simps)
qed

lemma calcEntropy_range:
  assumes "length bs = 64" "valid_random w"
  shows "\<exists>e. fst (calcEntropy bs w) = Num e \<and> 0 \<le> e \<and> e \<le> 1"
proof (cases "fractionOnes bs = 0 \<or> fractionOnes bs = 1")
  case True
  with assms show ?thesis
    by (auto simp: calcEntropy_def)
next
  case False
  have ne: "bs \<noteq> []"
    using assms(1) by auto
  define p where "p = fractionOnes bs"
  define r where "r = fst (Math_random w)"
  have p: "1 / 64 \<le> p" "p \<le> 1 - 1 / 64"
    using fractionOnes_range [OF ne] False assms(1) by (simp_all add: p_def)
  then have "min p (1 - p) \<le> shannon p"
    by (intro shannon_lower) simp_all
  with p have h: "1 / 64 \<le> shannon p"
    by (simp add: min_def split: if_splits)
  have r: "0 \<le> r"
    using Math_random_range [OF assms(2)] by (simp add: r_def)
  have e: "fst (calcEntropy bs w) = Num (min 1 (shannon p + (r - 0.5) * 0.015))"
    using False ne by (simp add: calcEntropy_def Let_def split_beta p_def r_def)
  define j where "j = (r - 0.5) * 0.015"
  have "- (3 / 400) \<le> j"
    using r by (simp add: j_def)
  with h have "0 \<le> shannon p + j"
    by linarith
  then show ?thesis
    unfolding e j_def [symmetric] by simp
qed

lemma calcEntropy_empty: "fst (calcEntropy [] w) = NaN"
  by (simp add: calcEntropy_def split_beta)

lemma calcEntropy_valid: "valid_random w \<Longrightarrow> valid_random (snd (calcEntropy bs w))"
  by (simp add: calcEntropy_def Let_def split_beta Math_random_range)

lemma calcSValue_range:
  assumes "valid_random w" "0 \<le> d" "d \<le> 1"
  shows "1.85 \<le> fst (calcSValue d w)" "fst (calcSValue d w) \<le> 2.828"
proof -
  define r1 where "r1 = fst (Math_random w)"
  define r2 where "r2 = fst (Math_random (snd (Math_random w)))"
  have r1: "0 \<le> r1" "r1 < 1"
    using Math_random_range [OF assms(1)] by (simp_all add: r1_def)
  have r2: "0 \<le> r2"
    using Math_random_range(1) [OF Math_random_range(3) [OF assms(1)]] by (simp add: r2_def)
  define base where "base = 1.85 + r1 * 0.25"
  define t where "t = base + d * 0.9 + r2 * 0.08"
  have s: "fst (calcSValue d w) = (if d > 0.55 then min 2.828 t else base)"
    by (simp add: calcSValue_def Let_def split_beta r1_def r2_def base_def t_def)
  have base: "37 / 20 \<le> base" "base \<le> 21 / 10"
    using r1 by (simp_all add: base_def)
  have "0 \<le> d * 0.9 + r2 * 0.08"
    using r2 assms(2) by simp
  then have t: "base \<le> t"
    by (simp add: t_def)
  have c: "(2.828 :: real) = 707 / 250" "(1.85 :: real) = 37 / 20"
    by simp_all
  show "1.85 \<le> fst (calcSValue d w)" "fst (calcSValue d w) \<le> 2.828"
    unfolding s c using base t by (auto simp: min_def)
qed

text \<open>
  What \<open>calcDeviationScore\<close> computes: the blend of the three components plus the jitter,
  clamped from above.
\<close>

lemma calcDeviationScore_blend:
  assumes "valid_random w"
  shows "fst (calcDeviationScore e t m w) \<le> 1
    \<and> (\<exists>en tn mn j.
          en = min 1 (max 0 ((e - 0.25) / 4.5)) \<and> 0 \<le> en \<and> en \<le> 1
          \<and> tn = min 1 (max 0 ((21 - t) / 12)) \<and> 0 \<le> tn \<and> tn \<le> 1
          \<and> mn = min 1 (m * 1.4) \<and> mn \<le> 1
          \<and> - 0.02 \<le> j \<and> j < 0.02
          \<and> fst (calcDeviationScore e t m w) = min 1 (en * 0.40 + tn * 0.35 + mn * 0.25 + j))"
proof -
  define r where "r = fst (Math_random w)"
  define j where "j = (r - 0.5) * 0.04"
  define en where "en = min 1 (max 0 ((e - 0.25) / 4.5))"
  define tn where "tn = min 1 (max 0 ((21 - t) / 12))"
  define mn where "mn = min 1 (m * 1.4)"
  have r: "0 \<le> r" "r < 1"
    using Math_random_range [OF assms] by (simp_all add: r_def)
  have j: "- 0.02 \<le> j" "j < 0.02"
    using r by (simp_all add: j_def)
  have en: "0 \<le> en" "en \<le> 1" and tn: "0 \<le> tn" "tn \<le> 1" and mn: "mn \<le> 1"
    by (simp_all add: en_def tn_def mn_def)
  have v: "fst (calcDeviationScore e t m w) = min 1 (en * 0.40 + tn * 0.35 + mn * 0.25 + j)"
    by (simp add: calcDeviationScore_def Let_def split_beta r_def j_def en_def tn_def mn_def)
  show ?thesis
  proof (intro conjI)
    show "fst (calcDeviationScore e t m w) \<le> 1"
      unfolding v by (rule min.cobounded1)
    show "\<exists>en tn mn j.
          en = min 1 (max 0 ((e - 0.25) / 4.5)) \<and> 0 \<le> en \<and> en \<le> 1
          \<and> tn = min 1 (max 0 ((21 - t) / 12)) \<and> 0 \<le> tn \<and> tn \<le> 1
          \<and> mn = min 1 (m * 1.4) \<and> mn \<le> 1
          \<and> - 0.02 \<le> j \<and> j < 0.02
          \<and> fst (calcDeviationScore e t m w) = min 1 (en * 0.40 + tn * 0.35 + mn * 0.25 + j)"
      using en_def tn_def mn_def en tn mn j v by blast
  qed
qed

text \<open>
  The deviation score has no lower clamp: with a non-negative motion it is at least the
  smallest jitter.
\<close>

lemma calcDeviationScore_lower:
  assumes "valid_random w" "0 \<le> m"
  shows "- 0.02 \<le> fst (calcDeviationScore e t m w)"
proof -
  define r where "r = fst (Math_random w)"
  define j where "j = (r - 0.5) * 0.04"
  define en where "en = min 1 (max 0 ((e - 0.25) / 4.5))"
  define tn where "tn = min 1 (max 0 ((21 - t) / 12))"
  define mn where "mn = min 1 (m * 1.4)"
  have "0 \<le> r"
    using Math_random_range [OF assms(1)] by (simp add: r_def)
  then have j: "- 0.02 \<le> j"
    by (simp add: j_def)
  have v: "fst (calcDeviationScore e t m w) = min 1 (en * 0.40 + tn * 0.35 + mn * 0.25 + j)"
    by (simp add: calcDeviationScore_def Let_def split_beta r_def j_def en_def tn_def mn_def)
  have "0 \<le> en" "0 \<le> tn" "0 \<le> mn"
    using assms(2) by (simp_all add: en_def tn_def mn_def)
  then have "0 \<le> en * 0.40 + tn * 0.35 + mn * 0.25"
    by simp
  with j have "- 0.02 \<le> en * 0.40 + tn * 0.35 + mn * 0.25 + j"
    by linarith
  then show ?thesis
    unfolding v by simp
qed

section \<open>The decision of the detector\<close>

lemma candidates_decisions:
  "map (\<lambda>c. (c_type c, c_severity c)) (fst (candidates cur prev w)) =
     (if emf cur > 2.8 \<and> emf prev < 1.0
      then [(emf_spike, if emf cur > 6 then high else medium)] else []) @
     (if temperature cur < temperature prev - 1.8
      then [(temperature_drop,
             if num_gt (toNumber (toFixed (temperature prev - temperature cur) 1)) 3.5
             then high else medium)] else []) @
     (if motion cur > 0.55 \<and> motion prev < 0.08
      then [(motion_surge, if motion cur > 0.8 then high else medium)] else []) @
     (if audioLevel cur > - 22 \<and> audioLevel prev < - 42
      then [(evp_pattern, if audioLevel cur > - 12 then high else medium)] else [])"
proof -
  define E where "E \<longleftrightarrow> emf cur > 2.8 \<and> emf prev < 1.0"
  define T where "T \<longleftrightarrow> temperature cur < temperature prev - 1.8"
  define M where "M \<longleftrightarrow> motion cur > 0.55 \<and> motion prev < 0.08"
  define A where "A \<longleftrightarrow> audioLevel cur > - 22 \<and> audioLevel prev < - 42"
  show ?thesis
    unfolding candidates_def E_def [symmetric] T_def [symmetric] M_def [symmetric]
      A_def [symmetric]
    by (cases E; cases T; cases M; cases A) (simp_all add: Let_def split_beta)
qed

lemma candidates_clock: "clock (snd (candidates cur prev w)) = clock w"
proof -
  define E where "E \<longleftrightarrow> emf cur > 2.8 \<and> emf prev < 1.0"
  define A where "A \<longleftrightarrow> audioLevel cur > - 22 \<and> audioLevel prev < - 42"
  show ?thesis
    unfolding candidates_def E_def [symmetric] A_def [symmetric]
    by (cases E; cases A) (simp_all add: Let_def split_beta Math_random_def)
qed

lemma candidates_pressure:
  "candidates (cur\<lparr>pressure := p\<rparr>) (prev\<lparr>pressure := q\<rparr>) w = candidates cur prev w"
  unfolding candidates_def by (simp split del: if_split cong: if_cong)

lemma detectAnomaly_projection:
  "map_option (\<lambda>a. (a_type a, a_severity a, readings a, a_timestamp a, a_id a))
       (fst (detectAnomaly cur (Some prev) w)) =
     (case map (\<lambda>c. (c_type c, c_severity c)) (fst (candidates cur prev w)) of
        [] \<Rightarrow> None
      | d # _ \<Rightarrow>
          Some (fst d, snd d,
            \<lparr>r_emf = Some (emf cur), r_temperature = Some (temperature cur),
               r_motion = Some (motion cur), r_pressure = None,
               r_audioLevel = Some (audioLevel cur), r_timestamp = None\<rparr>,
            shd (stl (clock w)),
            [913] @ sliceFromEnd 5 (toUpperCase (toString (shd (clock w)) 36))))"
  by (simp add: detectAnomaly_def Let_def split_beta Date_now_def Math_random_def candidates_clock
      split: list.splits)

lemma detectAnomaly_decision:
  "map_option (\<lambda>a. (a_type a, a_severity a)) (fst (detectAnomaly cur (Some prev) w)) =
     (if emf cur > 2.8 \<and> emf prev < 1.0
      then Some (emf_spike, if emf cur > 6 then high else medium)
      else if temperature cur < temperature prev - 1.8
      then Some (temperature_drop,
             if num_gt (toNumber (toFixed (temperature prev - temperature cur) 1)) 3.5
             then high else medium)
      else if motion cur > 0.55 \<and> motion prev < 0.08
      then Some (motion_surge, if motion cur > 0.8 then high else medium)
      else if audioLevel cur > - 22 \<and> audioLevel prev < - 42
      then Some (evp_pattern, if audioLevel cur > - 12 then high else medium)
      else None)"
proof -
  have "map_option (\<lambda>a. (a_type a, a_severity a)) (fst (detectAnomaly cur (Some prev) w)) =
      map_option (\<lambda>(t, s, _). (t, s))
        (map_option (\<lambda>a. (a_type a, a_severity a, readings a, a_timestamp a, a_id a))
          (fst (detectAnomaly cur (Some prev) w)))"
    by (simp add: option.map_comp comp_def)
  then show ?thesis
    unfolding detectAnomaly_projection candidates_decisions by simp
qed

lemma rounded_drop_high:
  assumes "0 \<le> d"
  shows "num_gt (toNumber (toFixed d 1)) 3.5 \<longleftrightarrow> 3.55 \<le> d"
proof -
  define n where "n = nat \<lfloor>\<bar>d\<bar> * 10 ^ 1 + 1 / 2\<rfloor>"
  have "toNumber (toFixed d 1) = Num (real n / 10)"
    using assms by (simp add: toNumber_toFixed n_def)
  then have "num_gt (toNumber (toFixed d 1)) 3.5 \<longleftrightarrow> 35 < real n"
    by simp
  also have "\<dots> \<longleftrightarrow> 36 \<le> n"
    by auto
  also have "\<dots> \<longleftrightarrow> int 36 \<le> \<lfloor>d * 10 + 1 / 2\<rfloor>"
    unfolding n_def using assms by (subst le_nat_iff) simp_all
  also have "\<dots> \<longleftrightarrow> of_int (int 36) \<le> d * 10 + 1 / 2"
    by (rule le_floor_iff)
  also have "\<dots> \<longleftrightarrow> 3.55 \<le> d"
    by auto
  finally show ?thesis .
qed

lemma detectAnomaly_readings:
  "map_option readings (fst (detectAnomaly cur prevo w)) =
     map_option (\<lambda>_. \<lparr>r_emf = Some (emf cur), r_temperature = Some (temperature cur),
               r_motion = Some (motion cur), r_pressure = None,
               r_audioLevel = Some (audioLevel cur), r_timestamp = None\<rparr>)
       (fst (detectAnomaly cur prevo w))"
  by (cases prevo) (simp_all add: detectAnomaly_def Let_def split_beta split: list.splits)

lemma valid_random_example: "valid_random example_world" "valid_random example_world_low"
  by (simp_all add: valid_random_def example_world_def example_world_low_def)

lemma type_severity_iff:
  "(\<exists>a. R = Some a \<and> a_type a = t \<and> a_severity a = s) \<longleftrightarrow>
     map_option (\<lambda>a. (a_type a, a_severity a)) R = Some (t, s)"
  by (cases R) auto

lemma type_iff:
  "(\<exists>a. R = Some a \<and> a_type a = t) \<longleftrightarrow>
     (\<exists>s. map_option (\<lambda>a. (a_type a, a_severity a)) R = Some (t, s))"
  by (cases R) auto

lemma type_only:
  "map_option a_type R = map_option fst (map_option (\<lambda>a. (a_type a, a_severity a)) R)"
  by (simp add: option.map_comp comp_def)

text \<open>
  What the detector does for a temperature drop when the EMF predicate does not fire: the
  anomaly is returned exactly when previous minus current temperature exceeds 1.8, and
  its severity is decided on the drop rounded to one decimal place (the string
  \<^verbatim>\<open>toFixed(1)\<close> converted back to a number), so it is \<open>high\<close> exactly when the drop is at
  least 3.55.
\<close>

lemma temperature_drop_decision:
  assumes "\<not> (emf cur > 2.8 \<and> emf prev < 1.0)"
  shows "((\<exists>a. fst (detectAnomaly cur (Some prev) w) = Some a \<and> a_type a = temperature_drop)
      \<longleftrightarrow> temperature prev - temperature cur > 1.8)
   \<and> ((\<exists>a. fst (detectAnomaly cur (Some prev) w) = Some a \<and> a_type a = temperature_drop
          \<and> a_severity a = high)
      \<longleftrightarrow> temperature prev - temperature cur \<ge> 3.55)
   \<and> ((\<exists>a. fst (detectAnomaly cur (Some prev) w) = Some a \<and> a_type a = temperature_drop
          \<and> a_severity a = medium)
      \<longleftrightarrow> temperature prev - temperature cur > 1.8
          \<and> temperature prev - temperature cur < 3.55)
   \<and> (temperature prev - temperature cur > 1.8
        \<and> num_gt (toNumber (toFixed (temperature prev - temperature cur) 1)) 3.5
      \<longleftrightarrow> temperature prev - temperature cur \<ge> 3.55)"
proof -
  define d where "d = temperature prev - temperature cur"
  have round: "d > 1.8 \<and> num_gt (toNumber (toFixed d 1)) 3.5 \<longleftrightarrow> 3.55 \<le> d"
  proof (cases "0 \<le> d")
    case True
    then show ?thesis
      using rounded_drop_high [of d] by auto
  next
    case False
    then show ?thesis
      by auto
  qed
  define M where "M \<longleftrightarrow> motion cur > 0.55 \<and> motion prev < 0.08"
  define A where "A \<longleftrightarrow> audioLevel cur > - 22 \<and> audioLevel prev < - 42"
  define sm where "sm = (if motion cur > 0.8 then high else medium)"
  define sa where "sa = (if audioLevel cur > - 12 then high else medium)"
  define D where
    "D = map_option (\<lambda>a. (a_type a, a_severity a)) (fst (detectAnomaly cur (Some prev) w))"
  have fires: "temperature cur < temperature prev - 1.8 \<longleftrightarrow> d > 1.8"
    by (auto simp: d_def)
  have "D = (if temperature cur < temperature prev - 1.8
       then Some (temperature_drop, if num_gt (toNumber (toFixed d 1)) 3.5 then high else medium)
       else if M then Some (motion_surge, sm) else if A then Some (evp_pattern, sa) else None)"
    unfolding D_def detectAnomaly_decision M_def A_def sm_def sa_def d_def
    using assms by (simp only: if_False)
  then have dec: "D = (if d > 1.8
       then Some (temperature_drop, if num_gt (toNumber (toFixed d 1)) 3.5 then high else medium)
       else if M then Some (motion_surge, sm) else if A then Some (evp_pattern, sa) else None)"
    by (simp only: fires)
  show ?thesis
  proof (cases "d > 1.8")
    case True
    then have "num_gt (toNumber (toFixed d 1)) 3.5 \<longleftrightarrow> 3.55 \<le> d"
      by (intro rounded_drop_high) simp
    with True have "D = Some (temperature_drop, if 3.55 \<le> d then high else medium)"
      by (simp only: dec if_True)
    with True round show ?thesis
      unfolding type_iff type_severity_iff D_def [symmetric] d_def [symmetric] by auto
  next
    case False
    then have "D = (if M then Some (motion_surge, sm) else if A then Some (evp_pattern, sa) else None)"
      by (simp only: dec if_False)
    with False round show ?thesis
      unfolding type_iff type_severity_iff D_def [symmetric] d_def [symmetric]
      by (cases M; cases A) auto
  qed
qed

lemma temperature_drop_decision_example:
  "\<not> (emf example_cold > 2.8 \<and> emf example_prev < 1.0)
   \<and> (\<exists>a. fst (detectAnomaly example_cold (Some example_prev) example_world) = Some a
        \<and> a_type a = temperature_drop \<and> a_severity a = high)"
proof -
  have h: "\<not> (emf example_cold > 2.8 \<and> emf example_prev < 1.0)"
    by (simp add: example_cold_def example_prev_def)
  have "temperature example_prev - temperature example_cold \<ge> 3.55"
    by (simp add: example_cold_def example_prev_def)
  with h temperature_drop_decision [OF h, of example_world] show ?thesis
    by simp
qed

section \<open>The detector at an example\<close>

text \<open>
  The id, the description and the hash that the model computes for an EMF spike of 3.0
  after a quiet reading, at the clock value 1700000000000, for the random draws 0 and 1/4.
\<close>

lemma candidates_example_spike:
  "map c_desc (fst (candidates example_spike example_prev w)) =
     [ascii ''EMF spike: '' @ toFixed 3.0 2 @ ascii '' '' @ [181] @ ascii ''T (''
       @ toFixed (3.0 / 0.2) 1 @ [215] @ ascii '' baseline). Entropy deviation ''
       @ toFixed (shd (rand w) * 0.35 + 0.12) 2 @ [963] @ ascii '' below QRNG baseline ''
       @ [8212] @ ascii '' structured non-randomness detected.'']"
  by (simp add: candidates_def Let_def split_beta Math_random_def example_spike_def
      example_prev_def)

lemma toFixed_examples:
  "toFixed 3.0 2 = ascii ''3.00''"
  "toFixed (3.0 / 0.2) 1 = ascii ''15.0''"
  "toFixed (0 * 0.35 + 0.12) 2 = ascii ''0.12''"
  "toFixed (1 / 4 * 0.35 + 0.12) 2 = ascii ''0.21''"
  by (simp_all add: toFixed_def toString_def radixDigits.simps digitChar_def Let_def ascii_def)

lemma example_description_low:
  "map c_desc (fst (candidates example_spike example_prev example_world_low)) =
     [ascii ''EMF spike: 3.00 ''
       @ [181]
       @ ascii ''T (15.0''
       @ [215]
       @ ascii '' baseline). Entropy deviation 0.12''
       @ [963]
       @ ascii '' below QRNG baseline ''
       @ [8212]
       @ ascii '' structured non-randomness detected.'']"
proof -
  have r: "shd (rand example_world_low) = 0"
    by (simp add: example_world_low_def)
  show ?thesis
    unfolding candidates_example_spike r toFixed_examples by (simp add: ascii_def)
qed

lemma example_description_quarter:
  "map c_desc (fst (candidates example_spike example_prev example_world)) =
     [ascii ''EMF spike: 3.00 ''
       @ [181]
       @ ascii ''T (15.0''
       @ [215]
       @ ascii '' baseline). Entropy deviation 0.21''
       @ [963]
       @ ascii '' below QRNG baseline ''
       @ [8212]
       @ ascii '' structured non-randomness detected.'']"
proof -
  have r: "shd (rand example_world) = 1 / 4"
    by (simp add: example_world_def)
  show ?thesis
    unfolding candidates_example_spike r toFixed_examples by (simp add: ascii_def)
qed

lemma detectAnomaly_cosmetic:
  "map_option (\<lambda>a. (a_id a, description a, hash a)) (fst (detectAnomaly cur (Some prev) w)) =
     (case map c_desc (fst (candidates cur prev w)) of
        [] \<Rightarrow> None
      | d # _ \<Rightarrow>
          Some ([913] @ sliceFromEnd 5 (toUpperCase (toString (shd (clock w)) 36)), d,
            simpleHash (([913] @ sliceFromEnd 5 (toUpperCase (toString (shd (clock w)) 36)))
              @ d @ toString (timestamp cur) 10)))"
  by (simp add: detectAnomaly_def Let_def split_beta Date_now_def candidates_clock
      split: list.splits)

lemma example_id:
  "[913] @ sliceFromEnd 5 (toUpperCase (toString 1700000000000 36)) = [913] @ ascii ''W3V28''"
  by (simp add: sliceFromEnd_def toUpperCase_def toString_def radixDigits.simps digitChar_def
      ascii_def)

lemma example_timestamp: "toString 1700000000500 10 = ascii ''1700000000500''"
  by (simp add: toString_def radixDigits.simps digitChar_def ascii_def)

lemma example_clock:
  "shd (clock example_world_low) = 1700000000000" "shd (clock example_world) = 1700000000000"
  "timestamp example_spike = 1700000000500"
  by (simp_all add: example_world_low_def example_world_def example_spike_def)

lemma example_hash_low:
  "simpleHash (([913] @ ascii ''W3V28'')
       @ (ascii ''EMF spike: 3.00 ''
         @ [181]
         @ ascii ''T (15.0''
         @ [215]
         @ ascii '' baseline). Entropy deviation 0.12''
         @ [963]
         @ ascii '' below QRNG baseline ''
         @ [8212]
         @ ascii '' structured non-randomness detected.'')
       @ ascii ''1700000000500'') = ascii ''266E3269''"
proof -
  have s: "([913] @ ascii ''W3V28'')
       @ (ascii ''EMF spike: 3.00 ''
         @ [181]
         @ ascii ''T (15.0''
         @ [215]
         @ ascii '' baseline). Entropy deviation 0.12''
         @ [963]
         @ ascii '' below QRNG baseline ''
         @ [8212]
         @ ascii '' structured non-randomness detected.'')
       @ ascii ''1700000000500'' =
     [913, 87, 51, 86, 50, 56, 69, 77, 70, 32, 115, 112, 105, 107, 101, 58, 32, 51,
     46, 48, 48, 32, 181, 84, 32, 40, 49, 53, 46, 48, 215, 32, 98, 97, 115, 101,
     108, 105, 110, 101, 41, 46, 32, 69, 110, 116, 114, 111, 112, 121, 32, 100, 101,
     118, 105, 97, 116, 105, 111, 110, 32, 48, 46, 49, 50, 963, 32, 98, 101, 108,
     111, 119, 32, 81, 82, 78, 71, 32, 98, 97, 115, 101, 108, 105, 110, 101, 32,
     8212, 32, 115, 116, 114, 117, 99, 116, 117, 114, 101, 100, 32, 110, 111, 110,
     45, 114, 97, 110, 100, 111, 109, 110, 101, 115, 115, 32, 100, 101, 116, 101,
     99, 116, 101, 100, 46, 49, 55, 48, 48, 48, 48, 48, 48, 48, 48, 53, 48, 48]"
    by (simp add: ascii_def)
  have h: "foldl (\<lambda>h c. (push_bit 5 h + h) + word_of_nat c) (5381 :: 32 word)
     [913, 87, 51, 86, 50, 56, 69, 77, 70, 32, 115, 112, 105, 107, 101, 58, 32, 51,
     46, 48, 48, 32, 181, 84, 32, 40, 49, 53, 46, 48, 215, 32, 98, 97, 115, 101,
     108, 105, 110, 101, 41, 46, 32, 69, 110, 116, 114, 111, 112, 121, 32, 100, 101,
     118, 105, 97, 116, 105, 111, 110, 32, 48, 46, 49, 50, 963, 32, 98, 101, 108,
     111, 119, 32, 81, 82, 78, 71, 32, 98, 97, 115, 101, 108, 105, 110, 101, 32,
     8212, 32, 115, 116, 114, 117, 99, 116, 117, 114, 101, 100, 32, 110, 111, 110,
     45, 114, 97, 110, 100, 111, 109, 110, 101, 115, 115, 32, 100, 101, 116, 101,
     99, 116, 101, 100, 46, 49, 55, 48, 48, 48, 48, 48, 48, 48, 48, 53, 48, 48] = 644756073"
    by simp
  show ?thesis
    unfolding s simpleHash_def Let_def h
    by (simp add: padStart_def toUpperCase_def toString_def radixDigits.simps digitChar_def
        ascii_def)
qed

lemma detectAnomaly_example_low:
  "map_option (\<lambda>a. (a_id a, description a, hash a))
       (fst (detectAnomaly example_spike (Some example_prev) example_world_low)) =
     Some ([913] @ ascii ''W3V28'',
       ascii ''EMF spike: 3.00 ''
       @ [181]
       @ ascii ''T (15.0''
       @ [215]
       @ ascii '' baseline). Entropy deviation 0.12''
       @ [963]
       @ ascii '' below QRNG baseline ''
       @ [8212]
       @ ascii '' structured non-randomness detected.'',
       ascii ''266E3269'')"
  unfolding detectAnomaly_cosmetic example_description_low list.case example_clock
    example_id example_timestamp example_hash_low
  by (rule refl)

lemma example_hash_quarter:
  "simpleHash (([913] @ ascii ''W3V28'')
       @ (ascii ''EMF spike: 3.00 ''
         @ [181]
         @ ascii ''T (15.0''
         @ [215]
         @ ascii '' baseline). Entropy deviation 0.21''
         @ [963]
         @ ascii '' below QRNG baseline ''
         @ [8212]
         @ ascii '' structured non-randomness detected.'')
       @ ascii ''1700000000500'') = ascii ''26ED5289''"
proof -
  have s: "([913] @ ascii ''W3V28'')
       @ (ascii ''EMF spike: 3.00 ''
         @ [181]
         @ ascii ''T (15.0''
         @ [215]
         @ ascii '' baseline). Entropy deviation 0.21''
         @ [963]
         @ ascii '' below QRNG baseline ''
         @ [8212]
         @ ascii '' structured non-randomness detected.'')
       @ ascii ''1700000000500'' =
     [913, 87, 51, 86, 50, 56, 69, 77, 70, 32, 115, 112, 105, 107, 101, 58, 32, 51,
     46, 48, 48, 32, 181, 84, 32, 40, 49, 53, 46, 48, 215, 32, 98, 97, 115, 101,
     108, 105, 110, 101, 41, 46, 32, 69, 110, 116, 114, 111, 112, 121, 32, 100, 101,
     118, 105, 97, 116, 105, 111, 110, 32, 48, 46, 50, 49, 963, 32, 98, 101, 108,
     111, 119, 32, 81, 82, 78, 71, 32, 98, 97, 115, 101, 108, 105, 110, 101, 32,
     8212, 32, 115, 116, 114, 117, 99, 116, 117, 114, 101, 100, 32, 110, 111, 110,
     45, 114, 97, 110, 100, 111, 109, 110, 101, 115, 115, 32, 100, 101, 116, 101,
     99, 116, 101, 100, 46, 49, 55, 48, 48, 48, 48, 48, 48, 48, 48, 53, 48, 48]"
    by (simp add: ascii_def)
  have h: "foldl (\<lambda>h c. (push_bit 5 h + h) + word_of_nat c) (5381 :: 32 word)
     [913, 87, 51, 86, 50, 56, 69, 77, 70, 32, 115, 112, 105, 107, 101, 58, 32, 51,
     46, 48, 48, 32, 181, 84, 32, 40, 49, 53, 46, 48, 215, 32, 98, 97, 115, 101,
     108, 105, 110, 101, 41, 46, 32, 69, 110, 116, 114, 111, 112, 121, 32, 100, 101,
     118, 105, 97, 116, 105, 111, 110, 32, 48, 46, 50, 49, 963, 32, 98, 101, 108,
     111, 119, 32, 81, 82, 78, 71, 32, 98, 97, 115, 101, 108, 105, 110, 101, 32,
     8212, 32, 115, 116, 114, 117, 99, 116, 117, 114, 101, 100, 32, 110, 111, 110,
     45, 114, 97, 110, 100, 111, 109, 110, 101, 115, 115, 32, 100, 101, 116, 101,
     99, 116, 101, 100, 46, 49, 55, 48, 48, 48, 48, 48, 48, 48, 48, 53, 48, 48] = 653087369"
    by simp
  show ?thesis
    unfolding s simpleHash_def Let_def h
    by (simp add: padStart_def toUpperCase_def toString_def radixDigits.simps digitChar_def
        ascii_def)
qed

lemma detectAnomaly_example_quarter:
  "map_option (\<lambda>a. (a_id a, description a, hash a))
       (fst (detectAnomaly example_spike (Some example_prev) example_world)) =
     Some ([913] @ ascii ''W3V28'',
       ascii ''EMF spike: 3.00 ''
       @ [181]
       @ ascii ''T (15.0''
       @ [215]
       @ ascii '' baseline). Entropy deviation 0.21''
       @ [963]
       @ ascii '' below QRNG baseline ''
       @ [8212]
       @ ascii '' structured non-randomness detected.'',
       ascii ''26ED5289'')"
  unfolding detectAnomaly_cosmetic example_description_quarter list.case example_clock
    example_id example_timestamp example_hash_quarter
  by (rule refl)

section \<open>The claims\<close>

text \<open>
  C1. For every previous state whose window has 64 bits, every deviation score between 0
  and 1 and every sequence of random draws from the unit interval, the state returned by
  \<open>buildQuantumState\<close> has an entropy that is a number between 0 and 1 and an S-value
  between 0 and 2.828.
\<close>

theorem buildQuantumState_ranges:
  assumes "length (bits prev) = 64" "0 \<le> deviation" "deviation \<le> 1" "valid_random w"
  shows "(\<exists>e. entropy (fst (buildQuantumState prev deviation w)) = Num e \<and> 0 \<le> e \<and> e \<le> 1)
    \<and> 0 \<le> sValue (fst (buildQuantumState prev deviation w))
    \<and> sValue (fst (buildQuantumState prev deviation w)) \<le> 2.828"
proof -
  define u where "u = updateQRNGStream (bits prev) w"
  define c where "c = calcEntropy (fst u) (snd u)"
  have len: "length (fst u) = 64"
    using assms(1) by (simp add: u_def updateQRNGStream_length)
  have vu: "valid_random (snd u)"
    using assms(4) by (simp add: u_def updateQRNGStream_valid)
  then have vc: "valid_random (snd c)"
    by (simp add: c_def calcEntropy_valid)
  have e: "entropy (fst (buildQuantumState prev deviation w)) = fst c"
    and s: "sValue (fst (buildQuantumState prev deviation w)) = fst (calcSValue deviation (snd c))"
    by (simp_all add: buildQuantumState_def Let_def split_beta u_def c_def)
  from calcEntropy_range [OF len vu] calcSValue_range [OF vc assms(2,3)]
  show ?thesis
    unfolding e s c_def by simp
qed

theorem buildQuantumState_ranges_witness:
  "length (bits example_quantum) = 64 \<and> valid_random example_world
   \<and> (\<exists>e. entropy (fst (buildQuantumState example_quantum (3 / 5) example_world)) = Num e
        \<and> 0 \<le> e \<and> e \<le> 1)
   \<and> 0 \<le> sValue (fst (buildQuantumState example_quantum (3 / 5) example_world))
   \<and> sValue (fst (buildQuantumState example_quantum (3 / 5) example_world)) \<le> 2.828"
proof -
  have h1: "length (bits example_quantum) = 64"
    by (simp add: example_quantum_def)
  have h2: "valid_random example_world"
    by (simp add: valid_random_def example_world_def)
  show ?thesis
    using h1 h2 buildQuantumState_ranges [OF h1 _ _ h2, of "3 / 5"] by simp
qed

text \<open>
  C2. With a previous reading present and no predicate of higher priority firing,
  \<open>detectAnomaly\<close> returns a \<open>temperature_drop\<close> anomaly exactly when previous minus
  current temperature exceeds 1.8, with severity \<open>high\<close> exactly when the drop exceeds 3.5
  and \<open>medium\<close> otherwise. The code compares the rounded drop with 3.5 (lemma
  \<open>temperature_drop_decision\<close>), and the property fails for a drop between 3.5 and 3.55:
  after the temperature 21 the temperature 17.48, with no EMF spike, is a drop of 3.52,
  which exceeds 3.5, and the anomaly returned has severity \<open>medium\<close>.
\<close>

theorem detectAnomaly_temperature_drop_rounded:
  "\<not> (emf example_cooler > 2.8 \<and> emf example_prev < 1.0)
   \<and> temperature example_prev - temperature example_cooler > 3.5
   \<and> map_option (\<lambda>a. (a_type a, a_severity a))
        (fst (detectAnomaly example_cooler (Some example_prev) example_world))
      = Some (temperature_drop, medium)"
proof -
  have "\<not> num_gt (toNumber (toFixed (temperature example_prev - temperature example_cooler) 1)) 3.5"
    by (subst rounded_drop_high) (simp_all add: example_cooler_def example_prev_def)
  then show ?thesis
    unfolding detectAnomaly_decision by (simp add: example_cooler_def example_prev_def)
qed

text \<open>
  C3. For every emf, temperature and motion input the value returned by
  \<open>calcDeviationScore\<close> lies between 0 and 1: the weighted blend of the normalized EMF
  excess (40%), temperature drop (35%) and motion (25%), each component clamped to the
  interval from 0 to 1, with a jitter of at most 0.02 added and the result clamped to
  that interval. The code clamps the EMF and temperature components from both sides
  (lines 32 and 33) and the result from above only (line 36), and the property fails
  where the blend is below the jitter: at the initial sensor values (emf 0.19,
  temperature 21.4, motion 0.01) with a random draw of 0 both clamped components are 0,
  the blend is 0.0035, the jitter is -0.02 and the value returned is -0.0165.
\<close>

theorem calcDeviationScore_negative:
  "fst (Math_random example_world_low) = 0
   \<and> min 1 (max 0 ((0.19 - 0.25) / 4.5)) = (0 :: real)
   \<and> min 1 (max 0 ((21 - 21.4) / 12.0)) = (0 :: real)
   \<and> fst (calcDeviationScore 0.19 21.4 0.01 example_world_low) = - 0.0165
   \<and> fst (calcDeviationScore 0.19 21.4 0.01 example_world_low) < 0"
  by (simp add: example_world_low_def calcDeviationScore_def Math_random_def)

text \<open>
  C4. With a previous reading present, \<open>detectAnomaly\<close> returns no anomaly when none of the
  four predicates fires, and otherwise one anomaly whose type is that of the first
  predicate that fires, in the order \<open>emf_spike\<close>, \<open>temperature_drop\<close>, \<open>motion_surge\<close>,
  \<open>evp_pattern\<close>. For the previous reading with emf 0.5, temperature 21, motion 0.01,
  audio level -50 and the current reading with emf 7.0, temperature 15, motion 0.01, audio
  level -50 (any pressure and timestamps) the result is \<open>emf_spike\<close> with severity \<open>high\<close>.
\<close>

theorem detectAnomaly_first_match:
  "map_option a_type (fst (detectAnomaly cur (Some prev) w)) =
     (if emf cur > 2.8 \<and> emf prev < 1.0 then Some emf_spike
      else if temperature prev - temperature cur > 1.8 then Some temperature_drop
      else if motion cur > 0.55 \<and> motion prev < 0.08 then Some motion_surge
      else if audioLevel cur > - 22 \<and> audioLevel prev < - 42 then Some evp_pattern
      else None)
   \<and> map_option (\<lambda>a. (a_type a, a_severity a))
        (fst (detectAnomaly
          \<lparr>emf = 7.0, temperature = 15, motion = 0.01, pressure = p, audioLevel = - 50,
             timestamp = t\<rparr>
          (Some \<lparr>emf = 0.5, temperature = 21, motion = 0.01, pressure = p', audioLevel = - 50,
             timestamp = t'\<rparr>) w')) = Some (emf_spike, high)"
proof -
  have "temperature cur < temperature prev - 1.8 \<longleftrightarrow> temperature prev - temperature cur > 1.8"
    by auto
  then show ?thesis
    unfolding type_only detectAnomaly_decision by simp
qed

text \<open>
  C5. For every previous state whose window has 64 bits, the window of the state returned
  by \<open>buildQuantumState\<close> has 64 bits again: the previous window without its first 4 bits,
  followed by 4 fresh bits. The 4 bits are drawn one after the other: each is 1 when the
  next result of \<^verbatim>\<open>Math.random()\<close> exceeds 0.5 and 0 otherwise, and the 4 draws are used
  up.
\<close>

theorem buildQuantumState_window:
  assumes "length (bits prev) = 64"
  shows "length (bits (fst (buildQuantumState prev d w))) = 64
    \<and> bits (fst (buildQuantumState prev d w)) = drop 4 (bits prev) @ fst (generateQRNGBits 4 w)
    \<and> length (fst (generateQRNGBits 4 w)) = 4
    \<and> set (fst (generateQRNGBits 4 w)) \<subseteq> {0, 1}
    \<and> fst (generateQRNGBits 4 w) = map (\<lambda>r. if r > 0.5 then 1 else 0) (stake 4 (rand w))
    \<and> rand (snd (generateQRNGBits 4 w)) = sdrop 4 (rand w)
    \<and> bits (fst (buildQuantumState prev d w)) =
        drop 4 (bits prev) @ map (\<lambda>r. if r > 0.5 then 1 else 0) (stake 4 (rand w))"
proof -
  have "bits (fst (buildQuantumState prev d w)) = drop 4 (bits prev) @ fst (generateQRNGBits 4 w)"
    by (simp add: buildQuantumState_def updateQRNGStream_def Let_def split_beta)
  then show ?thesis
    using assms generateQRNGBits_length [of 4 w] generateQRNGBits_bits [of 4 w]
    by (simp add: generateQRNGBits_draws)
qed

theorem buildQuantumState_window_witness:
  "length (bits example_quantum) = 64
   \<and> length (bits (fst (buildQuantumState example_quantum (3 / 5) example_world_mixed))) = 64
   \<and> bits (fst (buildQuantumState example_quantum (3 / 5) example_world_mixed))
       = replicate 28 1 @ replicate 32 0 @ [1, 0, 1, 0]"
proof -
  have h: "length (bits example_quantum) = 64"
    by (simp add: example_quantum_def)
  have four: "(4 :: nat) = Suc (Suc (Suc (Suc 0)))"
    by simp
  have "map (\<lambda>r. if r > 0.5 then 1 else 0) (stake 4 (rand example_world_mixed))
      = [1, 0, 1, 0 :: nat]"
    unfolding four by (simp add: example_world_mixed_def)
  then show ?thesis
    using h buildQuantumState_window [OF h, of "3 / 5" example_world_mixed]
    by (simp add: example_quantum_def)
qed

text \<open>
  C6. Without a previous reading \<open>detectAnomaly\<close> returns no anomaly, whatever the current
  reading is; it reads neither the random numbers nor the clock.
\<close>

theorem detectAnomaly_no_previous: "detectAnomaly cur None w = (None, w)"
  by (simp add: detectAnomaly_def)

text \<open>
  C7. With a previous reading present, \<open>detectAnomaly\<close> returns an \<open>emf_spike\<close> anomaly
  exactly when the current EMF exceeds 2.8 and the previous EMF is below 1.0; its severity
  is \<open>high\<close> exactly when the current EMF exceeds 6 and \<open>medium\<close> otherwise. For the previous
  reading with emf 0.5, temperature 21, motion 0.01, audio level -50 and the current
  reading with emf 3.0 and otherwise the same values, the result is one anomaly of type
  \<open>emf_spike\<close> and severity \<open>medium\<close>.
\<close>

theorem detectAnomaly_emf_spike:
  "((\<exists>a. fst (detectAnomaly cur (Some prev) w) = Some a \<and> a_type a = emf_spike)
      \<longleftrightarrow> emf cur > 2.8 \<and> emf prev < 1.0)
   \<and> ((\<exists>a. fst (detectAnomaly cur (Some prev) w) = Some a \<and> a_type a = emf_spike
          \<and> a_severity a = high)
      \<longleftrightarrow> emf cur > 2.8 \<and> emf prev < 1.0 \<and> emf cur > 6)
   \<and> ((\<exists>a. fst (detectAnomaly cur (Some prev) w) = Some a \<and> a_type a = emf_spike
          \<and> a_severity a = medium)
      \<longleftrightarrow> emf cur > 2.8 \<and> emf prev < 1.0 \<and> \<not> emf cur > 6)
   \<and> map_option (\<lambda>a. (a_type a, a_severity a))
        (fst (detectAnomaly
          \<lparr>emf = 3.0, temperature = 21, motion = 0.01, pressure = p, audioLevel = - 50,
             timestamp = t\<rparr>
          (Some \<lparr>emf = 0.5, temperature = 21, motion = 0.01, pressure = p', audioLevel = - 50,
             timestamp = t'\<rparr>) w')) = Some (emf_spike, medium)"
  unfolding type_iff type_severity_iff detectAnomaly_decision by auto

text \<open>
  C8. On a non-empty window of zeros only, or of ones only, \<open>calcEntropy\<close> returns exactly 0
  and draws no random number (no jitter). On a window of 64 bits with 32 ones and 32
  zeros the entropy before the jitter is exactly 1: the result is the minimum of 1 and 1
  plus the jitter.
\<close>

theorem calcEntropy_degenerate_and_balanced:
  "(bs \<noteq> [] \<and> ((\<forall>b \<in> set bs. b = 0) \<or> (\<forall>b \<in> set bs. b = 1))
      \<longrightarrow> calcEntropy bs w = (Num 0, w))
   \<and> (length bs = 64 \<and> length (filter (\<lambda>b. b = 1) bs) = 32
        \<and> length (filter (\<lambda>b. b = 0) bs) = 32
      \<longrightarrow> shannon (fractionOnes bs) = 1
        \<and> fst (calcEntropy bs w) = Num (min 1 (1 + (fst (Math_random w) - 0.5) * 0.015)))"
proof (intro conjI impI)
  assume a: "bs \<noteq> [] \<and> ((\<forall>b \<in> set bs. b = 0) \<or> (\<forall>b \<in> set bs. b = 1))"
  then consider "\<forall>b \<in> set bs. b = 0" | "\<forall>b \<in> set bs. b = 1"
    by blast
  then have "fractionOnes bs = 0 \<or> fractionOnes bs = 1"
  proof cases
    case 1
    then have "filter (\<lambda>b. b = 1) bs = []"
      by (auto simp: filter_empty_conv)
    then show ?thesis
      by (simp add: fractionOnes_def)
  next
    case 2
    then have "filter (\<lambda>b. b = 1) bs = bs"
      by (auto simp: filter_id_conv)
    with a show ?thesis
      by (simp add: fractionOnes_def)
  qed
  with a show "calcEntropy bs w = (Num 0, w)"
    by (auto simp: calcEntropy_def)
next
  assume a: "length bs = 64 \<and> length (filter (\<lambda>b. b = 1) bs) = 32
    \<and> length (filter (\<lambda>b. b = 0) bs) = 32"
  then have p: "fractionOnes bs = 1 / 2"
    by (simp add: fractionOnes_def)
  have l: "log 2 (1 / 2) = - 1"
    by (simp add: log_divide)
  show h: "shannon (fractionOnes bs) = 1"
    unfolding p by (simp add: shannon_def l)
  have "bs \<noteq> []"
    using a by auto
  then show "fst (calcEntropy bs w) = Num (min 1 (1 + (fst (Math_random w) - 0.5) * 0.015))"
    using h by (simp add: calcEntropy_def Let_def split_beta p)
qed

theorem calcEntropy_degenerate_and_balanced_witness:
  "calcEntropy (replicate 64 0) example_world = (Num 0, example_world)
   \<and> calcEntropy (replicate 64 1) example_world = (Num 0, example_world)
   \<and> shannon (fractionOnes (replicate 32 1 @ replicate 32 0)) = 1
   \<and> fst (calcEntropy (replicate 32 1 @ replicate 32 0) example_world)
       = Num (min 1 (1 + (1 / 4 - 0.5) * 0.015))"
  using calcEntropy_degenerate_and_balanced [of "replicate 64 0" example_world]
    calcEntropy_degenerate_and_balanced [of "replicate 64 1" example_world]
    calcEntropy_degenerate_and_balanced [of "replicate 32 1 @ replicate 32 0" example_world]
  by (simp add: example_world_def Math_random_def)

text \<open>
  C9 (as amended). The decision of \<open>detectAnomaly\<close> does not depend on the random numbers:
  for the same readings, two runs in any two worlds (any random streams, any clocks) agree
  on whether an anomaly is returned and on its type, severity and readings snapshot; two
  runs that differ in the random stream only agree on the timestamp and the id as well.
  The fields that the random numbers can change are the description, the entropy, the
  hotspot and the hash, which is a digest of the id, the description and the timestamp.
\<close>

theorem detectAnomaly_random_independent:
  "map_option (\<lambda>a. (a_type a, a_severity a, readings a))
       (fst (detectAnomaly cur prevo w1)) =
   map_option (\<lambda>a. (a_type a, a_severity a, readings a))
       (fst (detectAnomaly cur prevo w2))
   \<and> map_option (\<lambda>a. (a_type a, a_severity a, readings a, a_timestamp a, a_id a))
       (fst (detectAnomaly cur prevo (w\<lparr>rand := s1\<rparr>))) =
     map_option (\<lambda>a. (a_type a, a_severity a, readings a, a_timestamp a, a_id a))
       (fst (detectAnomaly cur prevo (w\<lparr>rand := s2\<rparr>)))"
proof (cases prevo)
  case None
  then show ?thesis
    by (simp add: detectAnomaly_def)
next
  case (Some prev)
  have "map_option (\<lambda>a. (a_type a, a_severity a, readings a))
        (fst (detectAnomaly cur (Some prev) v)) =
      map_option (\<lambda>(t, s, r, _). (t, s, r))
        (map_option (\<lambda>a. (a_type a, a_severity a, readings a, a_timestamp a, a_id a))
          (fst (detectAnomaly cur (Some prev) v)))" for v
    by (simp add: option.map_comp comp_def)
  then show ?thesis
    unfolding Some detectAnomaly_projection candidates_decisions
    by (simp split: list.splits)
qed

text \<open>
  The claim as stated lists the description, the entropy, the hotspot and the id as the
  fields that the random numbers affect. The hash is affected too: for the same readings
  and the same clock, the random draws 0 and 1/4 give the hashes 266E3269 and 26ED5289.
\<close>

theorem detectAnomaly_random_independent_counterexample:
  "rand example_world_low \<noteq> rand example_world
   \<and> clock example_world_low = clock example_world
   \<and> map_option hash (fst (detectAnomaly example_spike (Some example_prev) example_world_low))
       \<noteq> map_option hash (fst (detectAnomaly example_spike (Some example_prev) example_world))"
proof -
  have proj: "map_option hash R = map_option (\<lambda>(i, d, h). h)
      (map_option (\<lambda>a. (a_id a, description a, hash a)) R)" for R
    by (simp add: option.map_comp comp_def)
  have h1: "map_option hash
      (fst (detectAnomaly example_spike (Some example_prev) example_world_low))
      = Some (ascii ''266E3269'')"
    unfolding proj detectAnomaly_example_low by simp
  have h2: "map_option hash
      (fst (detectAnomaly example_spike (Some example_prev) example_world))
      = Some (ascii ''26ED5289'')"
    unfolding proj detectAnomaly_example_quarter by simp
  have "shd (rand example_world_low) \<noteq> shd (rand example_world)"
    by (simp add: example_world_low_def example_world_def)
  then have r: "rand example_world_low \<noteq> rand example_world"
    by auto
  have c: "clock example_world_low = clock example_world"
    by (simp add: example_world_low_def example_world_def)
  show ?thesis
    unfolding h1 h2 using r c by (simp add: ascii_def)
qed

text \<open>
  C10. The pressure of a reading never influences \<open>detectAnomaly\<close>: changing the pressure
  of the current and of the previous reading changes nothing in the result. The readings
  snapshot of a returned anomaly, a partial reading, holds the emf, temperature, motion
  and audio level of the current reading and nothing else: its pressure (and its
  timestamp) is absent.
\<close>

theorem detectAnomaly_ignores_pressure:
  "detectAnomaly (cur\<lparr>pressure := p\<rparr>) (map_option (\<lambda>r. r\<lparr>pressure := q\<rparr>) prevo) w
     = detectAnomaly cur prevo w
   \<and> map_option readings (fst (detectAnomaly cur prevo w)) =
       map_option (\<lambda>_. \<lparr>r_emf = Some (emf cur), r_temperature = Some (temperature cur),
         r_motion = Some (motion cur), r_pressure = None,
         r_audioLevel = Some (audioLevel cur), r_timestamp = None\<rparr>)
         (fst (detectAnomaly cur prevo w))
   \<and> map_option (\<lambda>a. r_pressure (readings a)) (fst (detectAnomaly cur prevo w)) =
       map_option (\<lambda>_. None) (fst (detectAnomaly cur prevo w))"
proof -
  have same: "detectAnomaly (cur\<lparr>pressure := p\<rparr>) (map_option (\<lambda>r. r\<lparr>pressure := q\<rparr>) prevo) w
      = detectAnomaly cur prevo w"
    by (cases prevo)
      (simp_all add: detectAnomaly_def candidates_pressure Let_def split_beta split: list.splits)
  have "map_option (\<lambda>a. r_pressure (readings a)) (fst (detectAnomaly cur prevo w)) =
      map_option (\<lambda>_. None) (fst (detectAnomaly cur prevo w))"
  proof (cases "fst (detectAnomaly cur prevo w)")
    case None
    then show ?thesis
      by simp
  next
    case (Some a)
    with detectAnomaly_readings [of cur prevo w] have "r_pressure (readings a) = None"
      by simp
    with Some show ?thesis
      by simp
  qed
  with same show ?thesis
    using detectAnomaly_readings by simp
qed

end
